theory Spec2Isabelle
  imports Main
begin

section \<open>Data model (types.ts)\<close>

text \<open>
  The types of \<^verbatim>\<open>src/types.ts\<close>. Identifiers are strings, dates are
  milliseconds since the epoch. A board cell is \<^verbatim>\<open>null\<close> (\<open>None\<close>) or the
  identifier of the occupying player. A \<^verbatim>\<open>Player\<close> also carries statistics and two
  dates; the game model reads none of them, so the record holds the identifying fields.
\<close>

datatype GameStatus = Waiting | Active | Completed | Draw

type_synonym GameBoard = "string option list list"

record Player =
  id_Player :: string
  name_Player :: string
  email :: string

record Move =
  id_Move :: string
  gameId :: string
  playerId :: string
  row :: int
  col :: int
  timestamp :: nat

record Game =
  id_Game :: string
  name :: string
  status :: GameStatus
  board :: GameBoard
  players :: "Player list"
  currentPlayerId :: "string option"
  winnerId :: "string option"
  createdAt :: nat
  updatedAt :: nat
  moves :: "Move list"

datatype WinCondition = Row | Column | Diagonal

record WinResult =
  won :: bool
  condition :: "WinCondition option"
  position :: "nat option"

text \<open>
  Every \<^verbatim>\<open>throw new Error(msg)\<close> of the game model and of the game service is one
  constructor, named after its message:
  \<^item> \<open>GameNotFound\<close>: 'Game not found';
  \<^item> \<open>NotAcceptingPlayers\<close>: 'Game is not accepting new players';
  \<^item> \<open>GameFull\<close>: 'Game is full';
  \<^item> \<open>GameNotActive\<close>: 'Game is not active';
  \<^item> \<open>NotYourTurn\<close>: 'Not your turn';
  \<^item> \<open>BadCoordinates\<close>: 'Move coordinates must be between 0 and 2';
  \<^item> \<open>CellOccupied\<close>: 'Cell is already occupied';
  \<^item> \<open>PlayerNotInGame\<close>: 'Player not found in game';
  \<^item> \<open>CannotDeleteActive\<close>: 'Cannot delete an active game'.
\<close>

datatype error =
    GameNotFound
  | NotAcceptingPlayers
  | GameFull
  | GameNotActive
  | NotYourTurn
  | BadCoordinates
  | CellOccupied
  | PlayerNotInGame
  | CannotDeleteActive

text \<open>The private field \<^verbatim>\<open>games: Map<string, Game>\<close> of \<^verbatim>\<open>GameModel\<close>.\<close>

type_synonym games = "string \<rightharpoonup> Game"

text \<open>
  A board is a 3 by 3 grid: three rows of three cells. \<open>createEmptyBoard\<close> is the only
  place a board is made, and moves write inside it.
\<close>

definition board3x3 :: "GameBoard \<Rightarrow> bool" where
  "board3x3 b = (length b = 3 \<and> (\<forall>r \<in> set b. length r = 3))"

section \<open>The game model (models/game.ts)\<close>

definition createEmptyBoard :: GameBoard where
  "createEmptyBoard =
     [[None, None, None],
      [None, None, None],
      [None, None, None]]"

subsection \<open>Win and draw detection\<close>

text \<open>The loop over the rows of \<^verbatim>\<open>checkWinCondition\<close>, from \<open>r\<close> on.\<close>

function checkRows :: "GameBoard \<Rightarrow> string \<Rightarrow> nat \<Rightarrow> WinResult option" where
  "checkRows b p r =
     (if r < 3 then
        (if b ! r ! 0 = Some p \<and> b ! r ! 1 = Some p \<and> b ! r ! 2 = Some p
         then Some \<lparr>won = True, condition = Some Row, position = Some r\<rparr>
         else checkRows b p (r + 1))
      else None)"
  by pat_completeness auto
termination
  by (relation "measure (\<lambda>(b, p, r). 3 - r)") auto

text \<open>The loop over the columns, from \<open>c\<close> on.\<close>

function checkCols :: "GameBoard \<Rightarrow> string \<Rightarrow> nat \<Rightarrow> WinResult option" where
  "checkCols b p c =
     (if c < 3 then
        (if b ! 0 ! c = Some p \<and> b ! 1 ! c = Some p \<and> b ! 2 ! c = Some p
         then Some \<lparr>won = True, condition = Some Column, position = Some c\<rparr>
         else checkCols b p (c + 1))
      else None)"
  by pat_completeness auto
termination
  by (relation "measure (\<lambda>(b, p, c). 3 - c)") auto

definition checkWinCondition :: "GameBoard \<Rightarrow> string \<Rightarrow> WinResult" where
  "checkWinCondition b p =
     (case checkRows b p 0 of
        Some res \<Rightarrow> res
      | None \<Rightarrow>
         (case checkCols b p 0 of
            Some res \<Rightarrow> res
          | None \<Rightarrow>
             if b ! 0 ! 0 = Some p \<and> b ! 1 ! 1 = Some p \<and> b ! 2 ! 2 = Some p
             then \<lparr>won = True, condition = Some Diagonal, position = Some 0\<rparr>
             else if b ! 0 ! 2 = Some p \<and> b ! 1 ! 1 = Some p \<and> b ! 2 ! 0 = Some p
             then \<lparr>won = True, condition = Some Diagonal, position = Some 1\<rparr>
             else \<lparr>won = False, condition = None, position = None\<rparr>))"

text \<open>
  The inner loop of \<^verbatim>\<open>isDraw\<close> over the columns of row \<open>r\<close>, from \<open>c\<close> on:
  \<open>False\<close> when it meets an empty cell (the source returns false there).
\<close>

function isDrawCols :: "GameBoard \<Rightarrow> nat \<Rightarrow> nat \<Rightarrow> bool" where
  "isDrawCols b r c =
     (if c < 3 then
        (if b ! r ! c = None then False else isDrawCols b r (c + 1))
      else True)"
  by pat_completeness auto
termination
  by (relation "measure (\<lambda>(b, r, c). 3 - c)") auto

function isDrawRows :: "GameBoard \<Rightarrow> nat \<Rightarrow> bool" where
  "isDrawRows b r =
     (if r < 3 then
        (if isDrawCols b r 0 then isDrawRows b (r + 1) else False)
      else True)"
  by pat_completeness auto
termination
  by (relation "measure (\<lambda>(b, r). 3 - r)") auto

definition isDraw :: "GameBoard \<Rightarrow> bool" where
  "isDraw b = isDrawRows b 0"

subsection \<open>Array helpers of the host language\<close>

text \<open>
  \<^verbatim>\<open>Array.prototype.findIndex\<close>: the index of the first element that satisfies the
  predicate, or \<open>-1\<close>. \<^verbatim>\<open>Array.prototype.find\<close> is \<^const>\<open>find\<close> of the list
  library.
\<close>

fun findIndexFrom :: "('a \<Rightarrow> bool) \<Rightarrow> 'a list \<Rightarrow> int \<Rightarrow> int" where
  "findIndexFrom P [] i = -1"
| "findIndexFrom P (x # xs) i = (if P x then i else findIndexFrom P xs (i + 1))"

definition findIndex :: "('a \<Rightarrow> bool) \<Rightarrow> 'a list \<Rightarrow> int" where
  "findIndex P xs = findIndexFrom P xs 0"

text \<open>The decimal rendering of a number inside a template string.\<close>

function decimal :: "nat \<Rightarrow> string" where
  "decimal n =
     (if n < 10 then [''0123456789'' ! n]
      else decimal (n div 10) @ [''0123456789'' ! (n mod 10)])"
  by pat_completeness auto
termination
  by (relation "measure (\<lambda>n. n)") auto

subsection \<open>Operations on the collection of games\<close>

text \<open>
  Each operation takes the collection and returns its result together with the collection
  as the call leaves it, also when it throws: the second component after an error is the
  state at the \<^verbatim>\<open>throw\<close>. The identifiers drawn from \<^verbatim>\<open>uuidv4()\<close> and the
  readings of the clock (\<^verbatim>\<open>new Date()\<close>, \<^verbatim>\<open>Date.now()\<close>) are arguments, one per
  read, in the order of the source.
\<close>

definition createGame ::
  "games \<Rightarrow> string option \<Rightarrow> string \<Rightarrow> nat \<Rightarrow> nat \<Rightarrow> nat \<Rightarrow> Game \<times> games" where
  "createGame gs nm uuid tname tcreated tupdated =
     (let game =
        \<lparr>id_Game = uuid,
         name = (case nm of
                   None \<Rightarrow> ''Game-'' @ decimal tname
                 | Some n \<Rightarrow> if n = [] then ''Game-'' @ decimal tname else n),
         status = Waiting,
         board = createEmptyBoard,
         players = [],
         currentPlayerId = None,
         winnerId = None,
         createdAt = tcreated,
         updatedAt = tupdated,
         moves = []\<rparr>
      in (game, gs(id_Game game \<mapsto> game)))"

definition getGameById :: "games \<Rightarrow> string \<Rightarrow> Game option" where
  "getGameById gs gid = (case gs gid of Some game \<Rightarrow> Some game | None \<Rightarrow> None)"

definition joinGame ::
  "games \<Rightarrow> string \<Rightarrow> Player \<Rightarrow> nat \<Rightarrow> (error + Game) \<times> games" where
  "joinGame gs gid player now =
     (case getGameById gs gid of
        None \<Rightarrow> (Inl GameNotFound, gs)
      | Some game \<Rightarrow>
          if status game \<noteq> Waiting then (Inl NotAcceptingPlayers, gs)
          else if length (players game) \<ge> 2 then (Inl GameFull, gs)
          else
            let game1 = game\<lparr>players := players game @ [player]\<rparr>;
                game2 = (if length (players game1) = 2
                         then game1\<lparr>status := Active,
                                    currentPlayerId := Some (id_Player (players game1 ! 0))\<rparr>
                         else game1);
                game3 = game2\<lparr>updatedAt := now\<rparr>
            in (Inr game3, gs(gid \<mapsto> game3)))"

text \<open>
  The assignment \<^verbatim>\<open>game.board[row][col] = playerId\<close>. It runs only after the
  checks on \<open>r\<close> and \<open>c\<close>, so both indices are inside the grid. Row and column
  are whole numbers, as the board's indices are; the reads \<open>b ! i ! j\<close> of the model
  are those of the source on a 3 by 3 board, which is what the theorems about boards
  assume and what every stored board is (\<open>reachable_game_inv\<close>).
\<close>

definition setCell :: "GameBoard \<Rightarrow> int \<Rightarrow> int \<Rightarrow> string \<Rightarrow> GameBoard" where
  "setCell b r c pid = b[nat r := (b ! nat r)[nat c := Some pid]]"

definition makeMove ::
  "games \<Rightarrow> string \<Rightarrow> string \<Rightarrow> int \<Rightarrow> int \<Rightarrow> string \<Rightarrow> nat \<Rightarrow> nat
     \<Rightarrow> (error + Game \<times> Move) \<times> games" where
  "makeMove gs gid pid r c uuid tupdated tmove =
     (case getGameById gs gid of
        None \<Rightarrow> (Inl GameNotFound, gs)
      | Some game \<Rightarrow>
          if status game \<noteq> Active then (Inl GameNotActive, gs)
          else if currentPlayerId game \<noteq> Some pid then (Inl NotYourTurn, gs)
          else if r < 0 \<or> r > 2 \<or> c < 0 \<or> c > 2 then (Inl BadCoordinates, gs)
          else if board game ! nat r ! nat c \<noteq> None then (Inl CellOccupied, gs)
          else
            (case find (\<lambda>p. id_Player p = pid) (players game) of
               None \<Rightarrow> (Inl PlayerNotInGame, gs)
             | Some player \<Rightarrow>
                 let game1 = game\<lparr>board := setCell (board game) r c pid,
                                  updatedAt := tupdated\<rparr>;
                     move = \<lparr>id_Move = uuid, gameId = gid, playerId = pid,
                             row = r, col = c, timestamp = tmove\<rparr>;
                     game2 = game1\<lparr>moves := moves game1 @ [move]\<rparr>;
                     winResult = checkWinCondition (board game2) pid;
                     game3 =
                       (if won winResult
                        then game2\<lparr>status := Completed, winnerId := Some pid\<rparr>
                        else if isDraw (board game2)
                        then game2\<lparr>status := Draw\<rparr>
                        else
                          let currentPlayerIndex = findIndex (\<lambda>p. id_Player p = pid) (players game2);
                              nextPlayerIndex = (currentPlayerIndex + 1) mod int (length (players game2))
                          in game2\<lparr>currentPlayerId :=
                                      Some (id_Player (players game2 ! nat nextPlayerIndex))\<rparr>)
                 in (Inr (game3, move), gs(gid \<mapsto> game3))))"

definition deleteGame :: "games \<Rightarrow> string \<Rightarrow> (error + unit) \<times> games" where
  "deleteGame gs gid =
     (case getGameById gs gid of
        None \<Rightarrow> (Inl GameNotFound, gs)
      | Some game \<Rightarrow> (Inr (), gs(gid := None)))"

section \<open>The game service (services/gameService.ts)\<close>

text \<open>
  \<^verbatim>\<open>GameService.deleteGame\<close>, the operation the route \<^verbatim>\<open>DELETE /games/:id\<close> calls:
  it looks the game up, refuses an active one and only then asks the model to delete.
  Logging is left out.
\<close>

definition GameService_deleteGame :: "games \<Rightarrow> string \<Rightarrow> (error + unit) \<times> games" where
  "GameService_deleteGame gs gid =
     (case getGameById gs gid of
        None \<Rightarrow> (Inl GameNotFound, gs)
      | Some game \<Rightarrow>
          if status game = Active then (Inl CannotDeleteActive, gs)
          else deleteGame gs gid)"

section \<open>Reachable collections and the spec's vocabulary\<close>

text \<open>
  The collections of games the model can hold: the empty one of a fresh \<^verbatim>\<open>GameModel\<close>,
  and whatever a call of one of its four mutating operations leaves, whether the call
  returns or throws.
\<close>

inductive reachable :: "games \<Rightarrow> bool" where
  init: "reachable Map.empty"
| create: "reachable gs \<Longrightarrow> reachable (snd (createGame gs nm uuid tname tcreated tupdated))"
| join: "reachable gs \<Longrightarrow> reachable (snd (joinGame gs gid player now))"
| move: "reachable gs \<Longrightarrow> reachable (snd (makeMove gs gid pid r c uuid tupdated tmove))"
| delete: "reachable gs \<Longrightarrow> reachable (snd (deleteGame gs gid))"

text \<open>
  What every stored game satisfies: the board is a 3 by 3 grid, the current player is unset
  exactly while the game waits, a waiting game has at most one player and any other game
  has two.
\<close>

definition game_inv :: "Game \<Rightarrow> bool" where
  "game_inv g =
     (board3x3 (board g) \<and>
      (currentPlayerId g = None \<longleftrightarrow> status g = Waiting) \<and>
      (status g = Waiting \<longrightarrow> length (players g) \<le> 1) \<and>
      (status g \<noteq> Waiting \<longrightarrow> length (players g) = 2))"

text \<open>
  The eight winning lines in the spec's words: three rows, three columns, two diagonals,
  each a list of (row, column) positions; and a player occupying all cells of a line.
\<close>

definition winningLines :: "(nat \<times> nat) list list" where
  "winningLines =
     [[(0, 0), (0, 1), (0, 2)], [(1, 0), (1, 1), (1, 2)], [(2, 0), (2, 1), (2, 2)],
      [(0, 0), (1, 0), (2, 0)], [(0, 1), (1, 1), (2, 1)], [(0, 2), (1, 2), (2, 2)],
      [(0, 0), (1, 1), (2, 2)], [(0, 2), (1, 1), (2, 0)]]"

definition occupiesLine :: "GameBoard \<Rightarrow> string \<Rightarrow> (nat \<times> nat) list \<Rightarrow> bool" where
  "occupiesLine b p line = list_all (\<lambda>(r, c). b ! r ! c = Some p) line"

text \<open>The result of a call without the collection, and the move of a successful \<open>makeMove\<close>.\<close>

definition moveOf :: "(error + Game \<times> Move) \<times> games \<Rightarrow> Move option" where
  "moveOf res = (case fst res of Inl e \<Rightarrow> None | Inr (g, m) \<Rightarrow> Some m)"

section \<open>A sample run\<close>

text \<open>
  Two players, one game: created, joined by A then B, and played
  A (0,0), B (1,0), A (0,1), B (1,1), A (0,2), which completes the top row for A.
\<close>

definition playerA :: Player where
  "playerA = \<lparr>id_Player = ''A'', name_Player = ''Ann'', email = ''ann@example.com''\<rparr>"

definition playerB :: Player where
  "playerB = \<lparr>id_Player = ''B'', name_Player = ''Bob'', email = ''bob@example.com''\<rparr>"

definition mv :: "string \<Rightarrow> string \<Rightarrow> int \<Rightarrow> int \<Rightarrow> nat \<Rightarrow> Move" where
  "mv u p r c t = \<lparr>id_Move = u, gameId = ''g1'', playerId = p, row = r, col = c, timestamp = t\<rparr>"

definition run0 :: games where
  "run0 = snd (createGame Map.empty (Some ''G1'') ''g1'' 0 0 0)"

definition run1 :: games where
  "run1 = snd (joinGame run0 ''g1'' playerA 1)"

definition run2 :: games where
  "run2 = snd (joinGame run1 ''g1'' playerB 2)"

definition run3 :: games where
  "run3 = snd (makeMove run2 ''g1'' ''A'' 0 0 ''m1'' 3 3)"

definition run4 :: games where
  "run4 = snd (makeMove run3 ''g1'' ''B'' 1 0 ''m2'' 4 4)"

definition run5 :: games where
  "run5 = snd (makeMove run4 ''g1'' ''A'' 0 1 ''m3'' 5 5)"

definition run6 :: games where
  "run6 = snd (makeMove run5 ''g1'' ''B'' 1 1 ''m4'' 6 6)"

definition run7 :: games where
  "run7 = snd (makeMove run6 ''g1'' ''A'' 0 2 ''m5'' 7 7)"

text \<open>The games the run stores under \<^verbatim>\<open>g1\<close>, written out.\<close>

definition sampleGame ::
  "GameStatus \<Rightarrow> GameBoard \<Rightarrow> Player list \<Rightarrow> string option \<Rightarrow> string option \<Rightarrow> nat
     \<Rightarrow> Move list \<Rightarrow> Game" where
  "sampleGame st b ps cur win upd ms =
     \<lparr>id_Game = ''g1'', name = ''G1'', status = st, board = b, players = ps,
      currentPlayerId = cur, winnerId = win, createdAt = 0, updatedAt = upd, moves = ms\<rparr>"

definition stored1 :: Game where
  "stored1 = sampleGame Waiting createEmptyBoard [playerA] None None 1 []"

definition stored2 :: Game where
  "stored2 = sampleGame Active createEmptyBoard [playerA, playerB] (Some ''A'') None 2 []"

definition stored4 :: Game where
  "stored4 = sampleGame Active
     [[Some ''A'', None, None], [Some ''B'', None, None], [None, None, None]]
     [playerA, playerB] (Some ''A'') None 4
     [mv ''m1'' ''A'' 0 0 3, mv ''m2'' ''B'' 1 0 4]"

definition stored6 :: Game where
  "stored6 = sampleGame Active
     [[Some ''A'', Some ''A'', None], [Some ''B'', Some ''B'', None], [None, None, None]]
     [playerA, playerB] (Some ''A'') None 6
     [mv ''m1'' ''A'' 0 0 3, mv ''m2'' ''B'' 1 0 4, mv ''m3'' ''A'' 0 1 5, mv ''m4'' ''B'' 1 1 6]"

definition stored7 :: Game where
  "stored7 = sampleGame Completed
     [[Some ''A'', Some ''A'', Some ''A''], [Some ''B'', Some ''B'', None], [None, None, None]]
     [playerA, playerB] (Some ''A'') (Some ''A'') 7
     [mv ''m1'' ''A'' 0 0 3, mv ''m2'' ''B'' 1 0 4, mv ''m3'' ''A'' 0 1 5, mv ''m4'' ''B'' 1 1 6,
      mv ''m5'' ''A'' 0 2 7]"

section \<open>Facts about the model\<close>

subsection \<open>The loops of win and draw detection, unrolled\<close>

lemma checkRows_0:
  "checkRows b p 0 =
     (if b ! 0 ! 0 = Some p \<and> b ! 0 ! 1 = Some p \<and> b ! 0 ! 2 = Some p
      then Some \<lparr>won = True, condition = Some Row, position = Some 0\<rparr>
      else if b ! 1 ! 0 = Some p \<and> b ! 1 ! 1 = Some p \<and> b ! 1 ! 2 = Some p
      then Some \<lparr>won = True, condition = Some Row, position = Some 1\<rparr>
      else if b ! 2 ! 0 = Some p \<and> b ! 2 ! 1 = Some p \<and> b ! 2 ! 2 = Some p
      then Some \<lparr>won = True, condition = Some Row, position = Some 2\<rparr>
      else None)"
proof -
  have r3: "checkRows b p 3 = None" by (subst checkRows.simps) (simp add: numeral_2_eq_2 numeral_3_eq_3)
  have r2: "checkRows b p 2 = (if b ! 2 ! 0 = Some p \<and> b ! 2 ! 1 = Some p \<and> b ! 2 ! 2 = Some p
      then Some \<lparr>won = True, condition = Some Row, position = Some 2\<rparr> else None)"
    by (subst checkRows.simps) (simp add: r3 numeral_2_eq_2 numeral_3_eq_3)
  have r1: "checkRows b p 1 = (if b ! 1 ! 0 = Some p \<and> b ! 1 ! 1 = Some p \<and> b ! 1 ! 2 = Some p
      then Some \<lparr>won = True, condition = Some Row, position = Some 1\<rparr> else checkRows b p 2)"
    by (subst checkRows.simps) (simp add: numeral_2_eq_2 numeral_3_eq_3)
  show ?thesis
    by (subst checkRows.simps) (simp add: r1 r2 numeral_2_eq_2 numeral_3_eq_3)
qed

lemma checkCols_0:
  "checkCols b p 0 =
     (if b ! 0 ! 0 = Some p \<and> b ! 1 ! 0 = Some p \<and> b ! 2 ! 0 = Some p
      then Some \<lparr>won = True, condition = Some Column, position = Some 0\<rparr>
      else if b ! 0 ! 1 = Some p \<and> b ! 1 ! 1 = Some p \<and> b ! 2 ! 1 = Some p
      then Some \<lparr>won = True, condition = Some Column, position = Some 1\<rparr>
      else if b ! 0 ! 2 = Some p \<and> b ! 1 ! 2 = Some p \<and> b ! 2 ! 2 = Some p
      then Some \<lparr>won = True, condition = Some Column, position = Some 2\<rparr>
      else None)"
proof -
  have r3: "checkCols b p 3 = None" by (subst checkCols.simps) (simp add: numeral_2_eq_2 numeral_3_eq_3)
  have r2: "checkCols b p 2 = (if b ! 0 ! 2 = Some p \<and> b ! 1 ! 2 = Some p \<and> b ! 2 ! 2 = Some p
      then Some \<lparr>won = True, condition = Some Column, position = Some 2\<rparr> else None)"
    by (subst checkCols.simps) (simp add: r3 numeral_2_eq_2 numeral_3_eq_3)
  have r1: "checkCols b p 1 = (if b ! 0 ! 1 = Some p \<and> b ! 1 ! 1 = Some p \<and> b ! 2 ! 1 = Some p
      then Some \<lparr>won = True, condition = Some Column, position = Some 1\<rparr> else checkCols b p 2)"
    by (subst checkCols.simps) (simp add: numeral_2_eq_2 numeral_3_eq_3)
  show ?thesis
    by (subst checkCols.simps) (simp add: r1 r2 numeral_2_eq_2 numeral_3_eq_3)
qed

lemma isDrawCols_0:
  "isDrawCols b r 0 = (b ! r ! 0 \<noteq> None \<and> b ! r ! 1 \<noteq> None \<and> b ! r ! 2 \<noteq> None)"
proof -
  have c3: "isDrawCols b r 3 = True" by (subst isDrawCols.simps) (simp add: numeral_2_eq_2 numeral_3_eq_3)
  have c2: "isDrawCols b r 2 = (b ! r ! 2 \<noteq> None)"
    by (subst isDrawCols.simps) (simp add: c3 numeral_2_eq_2 numeral_3_eq_3)
  have c1: "isDrawCols b r 1 = (b ! r ! 1 \<noteq> None \<and> b ! r ! 2 \<noteq> None)"
    by (subst isDrawCols.simps) (simp add: c2 numeral_2_eq_2 numeral_3_eq_3)
  show ?thesis
    by (subst isDrawCols.simps) (simp add: c1 numeral_2_eq_2 numeral_3_eq_3)
qed

lemma isDraw_unfold:
  "isDraw b = (isDrawCols b 0 0 \<and> isDrawCols b 1 0 \<and> isDrawCols b 2 0)"
proof -
  have r3: "isDrawRows b 3 = True" by (subst isDrawRows.simps) (simp add: numeral_2_eq_2 numeral_3_eq_3)
  have r2: "isDrawRows b 2 = isDrawCols b 2 0"
    by (subst isDrawRows.simps) (simp add: r3 numeral_2_eq_2 numeral_3_eq_3)
  have r1: "isDrawRows b 1 = (isDrawCols b 1 0 \<and> isDrawCols b 2 0)"
    by (subst isDrawRows.simps) (simp add: r2 numeral_2_eq_2 numeral_3_eq_3)
  show ?thesis
    unfolding isDraw_def by (subst isDrawRows.simps) (simp add: r1 numeral_2_eq_2 numeral_3_eq_3)
qed

lemma won_checkWinCondition:
  "won (checkWinCondition b p) =
     ((b ! 0 ! 0 = Some p \<and> b ! 0 ! 1 = Some p \<and> b ! 0 ! 2 = Some p) \<or>
      (b ! 1 ! 0 = Some p \<and> b ! 1 ! 1 = Some p \<and> b ! 1 ! 2 = Some p) \<or>
      (b ! 2 ! 0 = Some p \<and> b ! 2 ! 1 = Some p \<and> b ! 2 ! 2 = Some p) \<or>
      (b ! 0 ! 0 = Some p \<and> b ! 1 ! 0 = Some p \<and> b ! 2 ! 0 = Some p) \<or>
      (b ! 0 ! 1 = Some p \<and> b ! 1 ! 1 = Some p \<and> b ! 2 ! 1 = Some p) \<or>
      (b ! 0 ! 2 = Some p \<and> b ! 1 ! 2 = Some p \<and> b ! 2 ! 2 = Some p) \<or>
      (b ! 0 ! 0 = Some p \<and> b ! 1 ! 1 = Some p \<and> b ! 2 ! 2 = Some p) \<or>
      (b ! 0 ! 2 = Some p \<and> b ! 1 ! 1 = Some p \<and> b ! 2 ! 0 = Some p))"
  unfolding checkWinCondition_def checkRows_0 checkCols_0
  by (simp split: if_splits) 



subsection \<open>Operations\<close>

lemma getGameById_eq: "getGameById gs gid = gs gid"
  by (simp add: getGameById_def split: option.splits)

lemma all_less_3: "(\<forall>i<3. P i) = (P (0::nat) \<and> P 1 \<and> P 2)"
  by (auto simp: numeral_3_eq_3 numeral_2_eq_2 less_Suc_eq)

lemma isDraw_full: "isDraw b = (\<forall>r<3. \<forall>c<3. b ! r ! c \<noteq> None)"
  unfolding isDraw_unfold isDrawCols_0 all_less_3 by blast

lemma board3x3_setCell:
  assumes "board3x3 b" and "0 \<le> r" and "r \<le> 2"
  shows "board3x3 (setCell b r c p)"
proof -
  from assms have lt: "nat r < length b" by (simp add: board3x3_def)
  then have "b ! nat r \<in> set b" by simp
  with assms(1) have len: "length (b ! nat r) = 3" by (simp add: board3x3_def)
  have "set (b[nat r := (b ! nat r)[nat c := Some p]])
          \<subseteq> insert ((b ! nat r)[nat c := Some p]) (set b)"
    by (rule set_update_subset_insert)
  with assms(1) len show ?thesis
    by (auto simp: board3x3_def setCell_def)
qed

lemma board3x3_createEmptyBoard: "board3x3 createEmptyBoard"
  by (simp add: board3x3_def createEmptyBoard_def)

lemma find_findIndex:
  "find P xs = Some x \<Longrightarrow> 0 \<le> i \<Longrightarrow> i \<le> findIndexFrom P xs i \<and> findIndexFrom P xs i < i + int (length xs)"
proof (induction xs arbitrary: i)
  case Nil
  then show ?case by simp
next
  case (Cons a xs)
  show ?case
  proof (cases "P a")
    case True
    then show ?thesis by simp
  next
    case False
    with Cons.prems have "find P xs = Some x" by simp
    from Cons.IH [OF this, of "i + 1"] Cons.prems(2) False show ?thesis by simp
  qed
qed

text \<open>
  The turn rotation of \<open>makeMove\<close> runs after \<^verbatim>\<open>find\<close> has found the mover among
  the players: the index \<^verbatim>\<open>findIndex\<close> returns is not negative (so the remainder
  \<^verbatim>\<open>%\<close> of the source is \<open>mod\<close>), and the next index is inside the list. With two
  players of different ids the next player is the other one.
\<close>

lemma findIndex_nonneg:
  assumes "find P xs = Some x"
  shows "0 \<le> findIndex P xs"
  using find_findIndex [OF assms, of 0] by (simp add: findIndex_def)

lemma nextPlayerIndex_in_range:
  assumes "find P xs = Some x"
  shows "nat ((findIndex P xs + 1) mod int (length xs)) < length xs"
proof -
  from assms have "xs \<noteq> []" by auto
  then have pos: "0 < int (length xs)" by simp
  then have "(findIndex P xs + 1) mod int (length xs) < int (length xs)"
    by (rule pos_mod_bound)
  moreover from pos have "0 \<le> (findIndex P xs + 1) mod int (length xs)"
    by (rule pos_mod_sign)
  ultimately show ?thesis by linarith
qed

lemma nextPlayer_of_two:
  assumes "id_Player p0 \<noteq> id_Player p1"
  shows "id_Player ([p0, p1] !
           nat ((findIndex (\<lambda>p. id_Player p = id_Player p0) [p0, p1] + 1) mod int (length [p0, p1])))
         = id_Player p1"
    and "id_Player ([p0, p1] !
           nat ((findIndex (\<lambda>p. id_Player p = id_Player p1) [p0, p1] + 1) mod int (length [p0, p1])))
         = id_Player p0"
  using assms by (simp_all add: findIndex_def)

text \<open>What a successful \<open>makeMove\<close> did.\<close>

lemma makeMove_Inr:
  assumes "makeMove gs gid pid r c uuid tu tm = (Inr (g', m), gs')"
  obtains game where
    "gs gid = Some game" and "status game = Active" and "currentPlayerId game = Some pid"
    and "0 \<le> r" and "r \<le> 2" and "0 \<le> c" and "c \<le> 2"
    and "board game ! nat r ! nat c = None"
    and "m = \<lparr>id_Move = uuid, gameId = gid, playerId = pid, row = r, col = c, timestamp = tm\<rparr>"
    and "gs' = gs(gid \<mapsto> g')"
    and "board g' = setCell (board game) r c pid"
    and "moves g' = moves game @ [m]"
    and "players g' = players game"
    and "status g' =
           (if won (checkWinCondition (board g') pid) then Completed
            else if isDraw (board g') then Draw else Active)"
    and "currentPlayerId g' =
           (if won (checkWinCondition (board g') pid) \<or> isDraw (board g') then Some pid
            else Some (id_Player (players game !
                   nat ((findIndex (\<lambda>p. id_Player p = pid) (players game) + 1)
                          mod int (length (players game))))))"
    and "winnerId g' =
           (if won (checkWinCondition (board g') pid) then Some pid else winnerId game)"
  using assms unfolding makeMove_def getGameById_eq
  by (auto simp: Let_def split: option.splits if_splits)

lemma makeMove_Inl:
  "makeMove gs gid pid r c uuid tu tm = (Inl e, gs') \<Longrightarrow> gs' = gs"
  unfolding makeMove_def getGameById_eq
  by (auto simp: Let_def split: option.splits if_splits)

lemma joinGame_Inl:
  "joinGame gs gid player now = (Inl e, gs') \<Longrightarrow> gs' = gs"
  unfolding joinGame_def getGameById_eq
  by (auto simp: Let_def split: option.splits if_splits)

subsection \<open>The sample run, evaluated\<close>

lemmas eval_simps = getGameById_eq Let_def checkWinCondition_def checkRows_0 checkCols_0
  isDraw_unfold isDrawCols_0 findIndex_def setCell_def sampleGame_def mv_def
  playerA_def playerB_def createEmptyBoard_def

lemma run0_eq:
  "run0 = [''g1'' \<mapsto> sampleGame Waiting createEmptyBoard [] None None 0 []]"
  by (simp add: run0_def createGame_def eval_simps)

lemma run1_eq: "run1 = [''g1'' \<mapsto> stored1]"
  by (simp add: run1_def run0_eq joinGame_def stored1_def eval_simps)

lemma run2_eq: "run2 = [''g1'' \<mapsto> stored2]"
  by (simp add: run2_def run1_eq joinGame_def stored1_def stored2_def eval_simps)

lemma run3_eq:
  "run3 = [''g1'' \<mapsto> sampleGame Active
     [[Some ''A'', None, None], [None, None, None], [None, None, None]]
     [playerA, playerB] (Some ''B'') None 3 [mv ''m1'' ''A'' 0 0 3]]"
  by (simp add: run3_def run2_eq makeMove_def stored2_def eval_simps)

lemma run4_eq: "run4 = [''g1'' \<mapsto> stored4]"
  by (simp add: run4_def run3_eq makeMove_def stored4_def eval_simps)

lemma run5_eq:
  "run5 = [''g1'' \<mapsto> sampleGame Active
     [[Some ''A'', Some ''A'', None], [Some ''B'', None, None], [None, None, None]]
     [playerA, playerB] (Some ''B'') None 5
     [mv ''m1'' ''A'' 0 0 3, mv ''m2'' ''B'' 1 0 4, mv ''m3'' ''A'' 0 1 5]]"
  by (simp add: run5_def run4_eq makeMove_def stored4_def eval_simps)

lemma run6_eq: "run6 = [''g1'' \<mapsto> stored6]"
  by (simp add: run6_def run5_eq makeMove_def stored6_def eval_simps)

lemma run7_eq: "run7 = [''g1'' \<mapsto> stored7]"
  by (simp add: run7_def run6_eq makeMove_def stored6_def stored7_def eval_simps)

lemma reachable_run1: "reachable run1"
  unfolding run1_def run0_def by (intro reachable.intros)

lemma reachable_run2: "reachable run2"
  unfolding run2_def run1_def run0_def by (intro reachable.intros)

lemma reachable_run4: "reachable run4"
  unfolding run4_def run3_def run2_def run1_def run0_def by (intro reachable.intros)

lemma reachable_run6: "reachable run6"
  unfolding run6_def run5_def using reachable_run4 by (intro reachable.intros)

lemma reachable_run7: "reachable run7"
  unfolding run7_def using reachable_run6 by (intro reachable.intros)

subsection \<open>The invariant of stored games\<close>

lemma game_inv_createGame:
  assumes "\<forall>k g. gs k = Some g \<longrightarrow> game_inv g"
  shows "\<forall>k g. snd (createGame gs nm uuid tn tc tu) k = Some g \<longrightarrow> game_inv g"
  using assms
  by (auto simp: createGame_def Let_def game_inv_def board3x3_createEmptyBoard)

lemma joinGame_Inr:
  assumes "joinGame gs gid player now = (Inr g', gs')"
  obtains game where
    "gs gid = Some game" and "status game = Waiting" and "length (players game) < 2"
    and "gs' = gs(gid \<mapsto> g')"
    and "players g' = players game @ [player]"
    and "board g' = board game"
    and "status g' = (if length (players game) = 1 then Active else Waiting)"
    and "currentPlayerId g' =
           (if length (players game) = 1 then Some (id_Player ((players game @ [player]) ! 0))
            else currentPlayerId game)"
proof (cases "gs gid")
  case None
  with assms show ?thesis by (simp add: joinGame_def getGameById_eq)
next
  case (Some game)
  with assms have w: "status game = Waiting" and n: "length (players game) < 2"
    by (auto simp: joinGame_def getGameById_eq split: if_splits)
  with assms Some show ?thesis
    by (intro that [of game]) (auto simp: joinGame_def getGameById_eq Let_def split: if_splits)
qed

lemma game_inv_joinGame:
  assumes "\<forall>k g. gs k = Some g \<longrightarrow> game_inv g"
  shows "\<forall>k g. snd (joinGame gs gid player now) k = Some g \<longrightarrow> game_inv g"
proof (cases "joinGame gs gid player now")
  case (Pair res gs')
  show ?thesis
  proof (cases res)
    case (Inl e)
    with Pair have "gs' = gs" by (auto dest: joinGame_Inl)
    with Pair assms show ?thesis by simp
  next
    case (Inr g')
    with Pair have ok: "joinGame gs gid player now = (Inr g', gs')" by simp
    from ok obtain game where
      game: "gs gid = Some game" and w: "status game = Waiting"
      and n: "length (players game) < 2"
      and gs': "gs' = gs(gid \<mapsto> g')"
      and ps: "players g' = players game @ [player]"
      and b: "board g' = board game"
      and st: "status g' = (if length (players game) = 1 then Active else Waiting)"
      and cur: "currentPlayerId g' =
           (if length (players game) = 1 then Some (id_Player ((players game @ [player]) ! 0))
            else currentPlayerId game)"
      by (rule joinGame_Inr)
    from assms game have gi: "game_inv game" by blast
    have "game_inv g'"
    proof (cases "length (players game) = 1")
      case True
      with gi b st cur ps show ?thesis by (simp add: game_inv_def)
    next
      case False
      with n have "length (players game) = 0" by arith
      with gi b st cur ps w show ?thesis by (simp add: game_inv_def)
    qed
    with assms gs' Pair show ?thesis by simp
  qed
qed

lemma game_inv_makeMove:
  assumes inv: "\<forall>k g. gs k = Some g \<longrightarrow> game_inv g"
  shows "\<forall>k g. snd (makeMove gs gid pid r c uuid tu tm) k = Some g \<longrightarrow> game_inv g"
proof (cases "makeMove gs gid pid r c uuid tu tm")
  case (Pair res gs')
  show ?thesis
  proof (cases res)
    case (Inl e)
    with Pair have "gs' = gs" by (auto dest: makeMove_Inl)
    with Pair inv show ?thesis by simp
  next
    case (Inr gm)
    obtain g' m where gm: "gm = (g', m)" by (cases gm)
    from Pair Inr gm have ok: "makeMove gs gid pid r c uuid tu tm = (Inr (g', m), gs')" by simp
    from ok obtain game where
      game: "gs gid = Some game" and act: "status game = Active"
      and r: "0 \<le> r" "r \<le> 2"
      and gs': "gs' = gs(gid \<mapsto> g')"
      and b': "board g' = setCell (board game) r c pid"
      and ps: "players g' = players game"
      and st: "status g' =
           (if won (checkWinCondition (board g') pid) then Completed
            else if isDraw (board g') then Draw else Active)"
      and cur: "currentPlayerId g' =
           (if won (checkWinCondition (board g') pid) \<or> isDraw (board g') then Some pid
            else Some (id_Player (players game !
                   nat ((findIndex (\<lambda>p. id_Player p = pid) (players game) + 1)
                          mod int (length (players game))))))"
      by (rule makeMove_Inr)
    from inv game have gi: "game_inv game" by blast
    then have "board3x3 (board g')"
      using b' r by (simp add: game_inv_def board3x3_setCell)
    moreover have "status g' \<noteq> Waiting" using st by (simp split: if_splits)
    moreover have "currentPlayerId g' \<noteq> None" using cur by (simp split: if_splits)
    moreover have "length (players g') = 2" using gi act ps by (simp add: game_inv_def)
    ultimately have "game_inv g'" by (simp add: game_inv_def)
    with inv gs' Pair show ?thesis by simp
  qed
qed

lemma game_inv_deleteGame:
  assumes "\<forall>k g. gs k = Some g \<longrightarrow> game_inv g"
  shows "\<forall>k g. snd (deleteGame gs gid) k = Some g \<longrightarrow> game_inv g"
  using assms unfolding deleteGame_def getGameById_eq
  by (auto split: option.splits if_splits)

lemma reachable_game_inv:
  "reachable gs \<Longrightarrow> \<forall>k g. gs k = Some g \<longrightarrow> game_inv g"
proof (induction rule: reachable.induct)
  case init
  show ?case by simp
next
  case (create gs nm uuid tname tcreated tupdated)
  from create.IH show ?case by (rule game_inv_createGame)
next
  case (join gs gid player now)
  from join.IH show ?case by (rule game_inv_joinGame)
next
  case (move gs gid pid r c uuid tupdated tmove)
  from move.IH show ?case by (rule game_inv_makeMove)
next
  case (delete gs gid)
  from delete.IH show ?case by (rule game_inv_deleteGame)
qed

section \<open>The claims\<close>

subsection \<open>Looking a game up\<close>

text \<open>
  Claim C10. For every game id that is not in the collection, \<open>getGameById\<close> returns
  \<^verbatim>\<open>null\<close> (\<open>None\<close>): it has no error result at all and returns what the
  collection holds under the id, for every id. The other operations of the model answer
  the same unknown id with the error 'Game not found'.
  (The service in front of the model, \<^verbatim>\<open>GameService.getGameById\<close>, is a different
  function: it rejects the empty string before it asks the model.)
\<close>

theorem getGameById_unknown:
  assumes "gid \<notin> dom gs"
  shows "getGameById gs gid = None
       \<and> (\<forall>k. getGameById gs k = gs k)
       \<and> fst (joinGame gs gid player now) = Inl GameNotFound
       \<and> fst (makeMove gs gid pid r c uuid tu tm) = Inl GameNotFound
       \<and> fst (deleteGame gs gid) = Inl GameNotFound"
proof -
  from assms have none: "gs gid = None" by (simp add: domIff)
  then show ?thesis
    by (simp add: getGameById_eq joinGame_def makeMove_def deleteGame_def)
qed

theorem getGameById_unknown_witness:
  "''g2'' \<notin> dom run2 \<and> getGameById run2 ''g2'' = None
     \<and> fst (deleteGame run2 ''g2'') = Inl GameNotFound"
proof -
  have h: "''g2'' \<notin> dom run2" by (simp add: run2_eq)
  from getGameById_unknown [OF h] h show ?thesis by blast
qed

subsection \<open>Win detection\<close>

text \<open>
  Claim C6. For every 3 by 3 board and every player id, \<open>checkWinCondition\<close> returns
  \<open>won = true\<close> exactly when the player occupies all three cells of at least one of the
  eight winning lines (three rows, three columns, two diagonals), and \<open>won = false\<close>
  for every board without such a line.
\<close>

theorem checkWinCondition_lines:
  assumes "board3x3 b"
  shows "won (checkWinCondition b p) = list_ex (occupiesLine b p) winningLines"
  by (simp add: won_checkWinCondition winningLines_def occupiesLine_def)

theorem checkWinCondition_lines_witness:
  "board3x3 [[Some ''A'', Some ''A'', Some ''B''], [None, Some ''B'', None], [Some ''B'', None, Some ''A'']]
   \<and> won (checkWinCondition
        [[Some ''A'', Some ''A'', Some ''B''], [None, Some ''B'', None], [Some ''B'', None, Some ''A'']] ''B'')
   \<and> \<not> won (checkWinCondition
        [[Some ''A'', Some ''A'', Some ''B''], [None, Some ''B'', None], [Some ''B'', None, Some ''A'']] ''A'')"
proof -
  let ?b = "[[Some ''A'', Some ''A'', Some ''B''], [None, Some ''B'', None], [Some ''B'', None, Some ''A'']]"
  have h: "board3x3 ?b" by (simp add: board3x3_def)
  have "list_ex (occupiesLine ?b ''B'') winningLines"
    by (simp add: winningLines_def occupiesLine_def)
  moreover have "\<not> list_ex (occupiesLine ?b ''A'') winningLines"
    by (simp add: winningLines_def occupiesLine_def)
  ultimately show ?thesis
    using h checkWinCondition_lines [OF h, of "''B''"] checkWinCondition_lines [OF h, of "''A''"]
    by simp
qed

subsection \<open>Rejected moves\<close>

text \<open>
  Claim C7. Every \<open>makeMove\<close> call that fails leaves the collection of games, and with it
  the game (board, moves, players, status, current player, winner, timestamps), exactly as
  it was: all the \<^verbatim>\<open>throw\<close>s of \<open>makeMove\<close> come before its first assignment.
  The causes the claim lists (game absent, game not active, caller not the current player,
  row or column outside 0..2, target cell occupied) each make the call fail.
\<close>

theorem makeMove_failure_atomic:
  assumes "\<forall>game. gs gid = Some game \<longrightarrow> board3x3 (board game)"
  shows "(\<forall>e gs'. makeMove gs gid pid r c uuid tu tm = (Inl e, gs') \<longrightarrow> gs' = gs)
       \<and> ((gs gid = None
            \<or> (\<exists>game. gs gid = Some game
                 \<and> (status game \<noteq> Active \<or> currentPlayerId game \<noteq> Some pid
                      \<or> r < 0 \<or> r > 2 \<or> c < 0 \<or> c > 2
                      \<or> board game ! nat r ! nat c \<noteq> None)))
           \<longrightarrow> (\<exists>e. makeMove gs gid pid r c uuid tu tm = (Inl e, gs)))"
proof (intro conjI allI impI)
  fix e gs'
  assume "makeMove gs gid pid r c uuid tu tm = (Inl e, gs')"
  then show "gs' = gs" by (rule makeMove_Inl)
next
  assume "gs gid = None
            \<or> (\<exists>game. gs gid = Some game
                 \<and> (status game \<noteq> Active \<or> currentPlayerId game \<noteq> Some pid
                      \<or> r < 0 \<or> r > 2 \<or> c < 0 \<or> c > 2
                      \<or> board game ! nat r ! nat c \<noteq> None))"
  then show "\<exists>e. makeMove gs gid pid r c uuid tu tm = (Inl e, gs)"
    unfolding makeMove_def getGameById_eq by (auto split: option.splits)
qed

theorem makeMove_failure_atomic_witness:
  "run4 ''g1'' = Some stored4 \<and> board3x3 (board stored4)
   \<and> makeMove run4 ''g1'' ''A'' 1 0 ''m3'' 5 5 = (Inl CellOccupied, run4)"
proof -
  have b: "board3x3 (board stored4)"
    by (simp add: stored4_def sampleGame_def board3x3_def)
  then have h: "\<forall>game. run4 ''g1'' = Some game \<longrightarrow> board3x3 (board game)"
    by (simp add: run4_eq)
  have ev: "fst (makeMove run4 ''g1'' ''A'' 1 0 ''m3'' 5 5) = Inl CellOccupied"
    by (simp add: run4_eq makeMove_def stored4_def eval_simps)
  have "snd (makeMove run4 ''g1'' ''A'' 1 0 ''m3'' 5 5) = run4"
    using makeMove_failure_atomic [of run4 "''g1''" "''A''" 1 0 "''m3''" 5 5, OF h] ev
    by (metis prod.collapse)
  with ev b show ?thesis by (simp add: prod_eq_iff run4_eq)
qed

subsection \<open>Deleting a game\<close>

text \<open>
  The model's own \<open>deleteGame\<close> looks at nothing but the presence of the game; the check
  of the status is the service's, which every caller of the routes goes through.
\<close>

lemma deleteGame_no_status_check:
  "gs gid = Some game \<Longrightarrow> deleteGame gs gid = (Inr (), gs(gid := None))"
  by (simp add: deleteGame_def getGameById_eq)

text \<open>
  Claim C3. For every game whose status is active, \<open>deleteGame\<close> (the operation behind
  \<^verbatim>\<open>DELETE /games/:id\<close>, \<^verbatim>\<open>GameService.deleteGame\<close>) fails with
  'Cannot delete an active game' and the game is still there to be looked up afterwards;
  it succeeds exactly for the games that are waiting, completed or drawn, and removes
  them; it fails with 'Game not found' when the id is absent.
\<close>

theorem GameService_deleteGame_protects_active:
  "(gs gid = None \<longrightarrow> GameService_deleteGame gs gid = (Inl GameNotFound, gs))
   \<and> (\<forall>game. gs gid = Some game \<and> status game = Active \<longrightarrow>
         GameService_deleteGame gs gid = (Inl CannotDeleteActive, gs)
         \<and> getGameById (snd (GameService_deleteGame gs gid)) gid = Some game)
   \<and> (fst (GameService_deleteGame gs gid) = Inr () \<longleftrightarrow>
         (\<exists>game. gs gid = Some game \<and> status game \<in> {Waiting, Completed, Draw}))
   \<and> (\<forall>game. gs gid = Some game \<and> status game \<in> {Waiting, Completed, Draw} \<longrightarrow>
         GameService_deleteGame gs gid = (Inr (), gs(gid := None)))"
proof (cases "gs gid")
  case None
  then show ?thesis by (simp add: GameService_deleteGame_def getGameById_eq)
next
  case (Some game)
  then show ?thesis
    by (cases "status game")
       (simp_all add: GameService_deleteGame_def deleteGame_def getGameById_eq)
qed

theorem GameService_deleteGame_protects_active_witness:
  "run2 ''g1'' = Some stored2 \<and> status stored2 = Active
   \<and> GameService_deleteGame run2 ''g1'' = (Inl CannotDeleteActive, run2)
   \<and> getGameById (snd (GameService_deleteGame run2 ''g1'')) ''g1'' = Some stored2
   \<and> run7 ''g1'' = Some stored7 \<and> status stored7 = Completed
   \<and> GameService_deleteGame run7 ''g1'' = (Inr (), run7(''g1'' := None))"
proof -
  have a: "run2 ''g1'' = Some stored2 \<and> status stored2 = Active"
    by (simp add: run2_eq stored2_def sampleGame_def)
  have b: "run7 ''g1'' = Some stored7 \<and> status stored7 \<in> {Waiting, Completed, Draw}"
    by (simp add: run7_eq stored7_def sampleGame_def)
  have c: "status stored7 = Completed" by (simp add: stored7_def sampleGame_def)
  from GameService_deleteGame_protects_active [of run2 "''g1''"] a
       GameService_deleteGame_protects_active [of run7 "''g1''"] b c
  show ?thesis by blast
qed

subsection \<open>Joining a game\<close>

text \<open>
  Claim C2. The claim says that a player who is already in a waiting game cannot join it
  again. The model's \<open>joinGame\<close> checks the status and the number of players only (the
  check of the player is a \<^verbatim>\<open>TODO\<close> in the source), so the second join of the same
  player goes through: in the sample run, after A has joined, A joins again, the game
  becomes active with the players A and A, and A is the current player.
\<close>

theorem joinGame_duplicate_accepted:
  "reachable run1 \<and> run1 ''g1'' = Some stored1 \<and> status stored1 = Waiting
   \<and> players stored1 = [playerA]
   \<and> joinGame run1 ''g1'' playerA 2 =
       (Inr (sampleGame Active createEmptyBoard [playerA, playerA] (Some ''A'') None 2 []),
        [''g1'' \<mapsto> sampleGame Active createEmptyBoard [playerA, playerA] (Some ''A'') None 2 []])"
proof -
  have "run1 ''g1'' = Some stored1 \<and> status stored1 = Waiting
   \<and> players stored1 = [playerA]
   \<and> joinGame run1 ''g1'' playerA 2 =
       (Inr (sampleGame Active createEmptyBoard [playerA, playerA] (Some ''A'') None 2 []),
        [''g1'' \<mapsto> sampleGame Active createEmptyBoard [playerA, playerA] (Some ''A'') None 2 []])"
    by (simp add: run1_eq joinGame_def stored1_def eval_simps)
  with reachable_run1 show ?thesis by blast
qed

text \<open>
  The other half of claim C2: a waiting game that already has two players answers
  'Game is full'. No reachable game is in that state: a game with two players has left the
  waiting status, and \<open>joinGame\<close> answers 'Game is not accepting new players' first.
\<close>

lemma joinGame_full_waiting:
  "gs gid = Some game \<Longrightarrow> status game = Waiting \<Longrightarrow> 2 \<le> length (players game)
     \<Longrightarrow> joinGame gs gid player now = (Inl GameFull, gs)"
  by (simp add: joinGame_def getGameById_eq)

lemma joinGame_two_players_reachable:
  assumes "reachable gs" and "gs gid = Some game" and "length (players game) = 2"
  shows "joinGame gs gid player now = (Inl NotAcceptingPlayers, gs)"
proof -
  from reachable_game_inv [OF assms(1)] assms(2) have "game_inv game" by blast
  with assms(3) have "status game \<noteq> Waiting" by (auto simp: game_inv_def)
  with assms(2) show ?thesis by (simp add: joinGame_def getGameById_eq)
qed

text \<open>
  Claim C8. For every waiting game with exactly one player, a \<open>joinGame\<close> that adds a
  second player succeeds, makes the game active and makes the first-joined player
  (\<open>players[0]\<close>) the current player, never the second; the first join of a game leaves
  it waiting, with no current player.
\<close>

theorem joinGame_second_player_activates:
  assumes "reachable gs" and "gs gid = Some game" and "status game = Waiting"
  shows "(\<forall>first. players game = [first] \<longrightarrow>
           (\<exists>g'. joinGame gs gid player now = (Inr g', gs(gid \<mapsto> g'))
                \<and> status g' = Active
                \<and> currentPlayerId g' = Some (id_Player first)
                \<and> players g' = [first, player]
                \<and> (id_Player player \<noteq> id_Player first \<longrightarrow>
                      currentPlayerId g' \<noteq> Some (id_Player player))))
       \<and> (players game = [] \<longrightarrow>
           (\<exists>g'. joinGame gs gid player now = (Inr g', gs(gid \<mapsto> g'))
                \<and> status g' = Waiting
                \<and> currentPlayerId g' = None
                \<and> players g' = [player]))"
proof -
  from reachable_game_inv [OF assms(1)] assms(2) have "game_inv game" by blast
  with assms(3) have cur: "currentPlayerId game = None" by (simp add: game_inv_def)
  show ?thesis
  proof (intro conjI allI impI)
    fix first
    assume "players game = [first]"
    with assms(2,3) show "\<exists>g'. joinGame gs gid player now = (Inr g', gs(gid \<mapsto> g'))
                \<and> status g' = Active
                \<and> currentPlayerId g' = Some (id_Player first)
                \<and> players g' = [first, player]
                \<and> (id_Player player \<noteq> id_Player first \<longrightarrow>
                      currentPlayerId g' \<noteq> Some (id_Player player))"
      by (simp add: joinGame_def getGameById_eq Let_def)
  next
    assume "players game = []"
    with assms(2,3) cur show "\<exists>g'. joinGame gs gid player now = (Inr g', gs(gid \<mapsto> g'))
                \<and> status g' = Waiting
                \<and> currentPlayerId g' = None
                \<and> players g' = [player]"
      by (simp add: joinGame_def getGameById_eq Let_def)
  qed
qed

theorem joinGame_second_player_activates_witness:
  "reachable run1 \<and> run1 ''g1'' = Some stored1 \<and> status stored1 = Waiting
   \<and> players stored1 = [playerA]
   \<and> joinGame run1 ''g1'' playerB 2 = (Inr stored2, run1(''g1'' \<mapsto> stored2))
   \<and> status stored2 = Active \<and> currentPlayerId stored2 = Some (id_Player playerA)"
proof -
  have a: "run1 ''g1'' = Some stored1" by (simp add: run1_eq)
  have b: "status stored1 = Waiting" by (simp add: stored1_def sampleGame_def)
  have c: "players stored1 = [playerA]" by (simp add: stored1_def sampleGame_def)
  from joinGame_second_player_activates [OF reachable_run1 a b, of playerB 2] c
  obtain g' where g': "joinGame run1 ''g1'' playerB 2 = (Inr g', run1(''g1'' \<mapsto> g'))"
    and st: "status g' = Active" and cu: "currentPlayerId g' = Some (id_Player playerA)"
    by blast
  have "snd (joinGame run1 ''g1'' playerB 2) = run2" by (simp add: run2_def)
  with g' have "(run1(''g1'' \<mapsto> g')) ''g1'' = run2 ''g1''" by simp
  then have "g' = stored2" by (simp add: run2_eq)
  with g' st cu reachable_run1 a b c show ?thesis by simp
qed

subsection \<open>The outcome of a move\<close>

text \<open>
  Claim C5. For every successful \<open>makeMove\<close> on a 3 by 3 board exactly one of three
  outcomes occurs: a win (status completed, decided by \<open>checkWinCondition\<close> for the mover
  on the new board), a draw (status draw: no win and the board full), or a turn flip
  (status still active: no win and an empty cell left). When the move fills the last empty
  cell the outcome is a win or a draw, never a turn flip, and the win comes first: the
  draw needs the win check to have failed.
\<close>

theorem makeMove_one_outcome:
  assumes "gs gid = Some game" and "board3x3 (board game)"
    and "makeMove gs gid pid r c uuid tu tm = (Inr (g', m), gs')"
  shows "(status g' = Completed \<or> status g' = Draw \<or> status g' = Active)
       \<and> (status g' = Completed \<longleftrightarrow> won (checkWinCondition (board g') pid))
       \<and> (status g' = Draw \<longleftrightarrow>
            \<not> won (checkWinCondition (board g') pid) \<and> isDraw (board g'))
       \<and> (status g' = Active \<longleftrightarrow>
            \<not> won (checkWinCondition (board g') pid) \<and> \<not> isDraw (board g'))
       \<and> (status g' = Completed \<longrightarrow> winnerId g' = Some pid)
       \<and> (status g' = Draw \<longrightarrow> winnerId g' = winnerId game)
       \<and> (status g' = Active \<longrightarrow>
            winnerId g' = winnerId game \<and>
            currentPlayerId g' =
              Some (id_Player (players game !
                nat ((findIndex (\<lambda>p. id_Player p = pid) (players game) + 1)
                       mod int (length (players game))))))
       \<and> ((\<forall>i<3. \<forall>j<3. board g' ! i ! j \<noteq> None) \<longrightarrow>
            status g' = Completed \<or> status g' = Draw)
       \<and> board3x3 (board g')"
proof -
  from assms(3) obtain game0 where
    game0: "gs gid = Some game0"
    and r: "0 \<le> r" "r \<le> 2"
    and b': "board g' = setCell (board game0) r c pid"
    and st: "status g' =
           (if won (checkWinCondition (board g') pid) then Completed
            else if isDraw (board g') then Draw else Active)"
    and cur: "currentPlayerId g' =
           (if won (checkWinCondition (board g') pid) \<or> isDraw (board g') then Some pid
            else Some (id_Player (players game0 !
                   nat ((findIndex (\<lambda>p. id_Player p = pid) (players game0) + 1)
                          mod int (length (players game0))))))"
    and win: "winnerId g' =
           (if won (checkWinCondition (board g') pid) then Some pid else winnerId game0)"
    by (rule makeMove_Inr)
  from game0 assms(1) have eq: "game0 = game" by simp
  have full: "isDraw (board g') = (\<forall>i<3. \<forall>j<3. board g' ! i ! j \<noteq> None)"
    by (rule isDraw_full)
  have wf: "board3x3 (board g')"
    using assms(2) b' r eq by (simp add: board3x3_setCell)
  show ?thesis
    using st cur win wf unfolding eq full [symmetric]
    by (simp split: if_splits)
qed

theorem makeMove_one_outcome_witness:
  "run6 ''g1'' = Some stored6 \<and> board3x3 (board stored6)
   \<and> makeMove run6 ''g1'' ''A'' 0 2 ''m5'' 7 7 = (Inr (stored7, mv ''m5'' ''A'' 0 2 7), run7)
   \<and> status stored7 = Completed \<and> won (checkWinCondition (board stored7) ''A'')
   \<and> winnerId stored7 = Some ''A''"
proof -
  have a: "run6 ''g1'' = Some stored6" by (simp add: run6_eq)
  have b: "board3x3 (board stored6)" by (simp add: stored6_def sampleGame_def board3x3_def)
  have c: "makeMove run6 ''g1'' ''A'' 0 2 ''m5'' 7 7 = (Inr (stored7, mv ''m5'' ''A'' 0 2 7), run7)"
    by (simp add: run7_eq run6_eq makeMove_def stored6_def stored7_def eval_simps)
  have d: "status stored7 = Completed" by (simp add: stored7_def sampleGame_def)
  from makeMove_one_outcome [OF a b c] d a b c show ?thesis by simp
qed

subsection \<open>The move record\<close>

text \<open>
  Claim C9, as stated, fails: a \<^verbatim>\<open>Move\<close> has the fields id, gameId, playerId, row,
  col and timestamp and no sequence number. The same call (same mover, cell, identifier
  and clock) on a game with no move yet and on a game with two moves creates the same
  record, so nothing in the record is the number of moves stored before the call.
\<close>

theorem move_record_independent_of_log:
  "moveOf (makeMove run2 ''g1'' ''A'' 2 2 ''m'' 9 9) = Some (mv ''m'' ''A'' 2 2 9)
   \<and> moveOf (makeMove run4 ''g1'' ''A'' 2 2 ''m'' 9 9) = Some (mv ''m'' ''A'' 2 2 9)
   \<and> map_option (\<lambda>g. length (moves g)) (run2 ''g1'') = Some 0
   \<and> map_option (\<lambda>g. length (moves g)) (run4 ''g1'') = Some 2"
  by (simp add: moveOf_def run2_eq run4_eq makeMove_def stored2_def stored4_def eval_simps)

text \<open>
  Claim C9, amended. Every \<^verbatim>\<open>Move\<close> record created by a successful \<open>makeMove\<close>
  carries the fresh identifier, the game identifier, the player identifier, the row, the
  column and the timestamp; it is appended to the game's move log, so the number of moves
  stored before the call is its index in the log, not a field of the record.
\<close>

theorem makeMove_appends_move:
  assumes "gs gid = Some game" and "board3x3 (board game)"
    and "makeMove gs gid pid r c uuid tu tm = (Inr (g', m), gs')"
  shows "m = \<lparr>id_Move = uuid, gameId = gid, playerId = pid, row = r, col = c, timestamp = tm\<rparr>
       \<and> moves g' = moves game @ [m]
       \<and> length (moves g') = length (moves game) + 1
       \<and> moves g' ! length (moves game) = m
       \<and> gs' gid = Some g'"
proof -
  from assms(3) obtain game0 where
    game0: "gs gid = Some game0"
    and m: "m = \<lparr>id_Move = uuid, gameId = gid, playerId = pid, row = r, col = c, timestamp = tm\<rparr>"
    and gs': "gs' = gs(gid \<mapsto> g')"
    and ms: "moves g' = moves game0 @ [m]"
    by (rule makeMove_Inr)
  from game0 assms(1) have "game0 = game" by simp
  with m gs' ms show ?thesis by simp
qed

theorem makeMove_appends_move_witness:
  "run4 ''g1'' = Some stored4 \<and> board3x3 (board stored4)
   \<and> fst (makeMove run4 ''g1'' ''A'' 0 1 ''m3'' 5 5) =
       Inr (sampleGame Active
              [[Some ''A'', Some ''A'', None], [Some ''B'', None, None], [None, None, None]]
              [playerA, playerB] (Some ''B'') None 5
              [mv ''m1'' ''A'' 0 0 3, mv ''m2'' ''B'' 1 0 4, mv ''m3'' ''A'' 0 1 5],
            mv ''m3'' ''A'' 0 1 5)
   \<and> length (moves stored4) = 2"
proof -
  let ?g5 = "sampleGame Active
              [[Some ''A'', Some ''A'', None], [Some ''B'', None, None], [None, None, None]]
              [playerA, playerB] (Some ''B'') None 5
              [mv ''m1'' ''A'' 0 0 3, mv ''m2'' ''B'' 1 0 4, mv ''m3'' ''A'' 0 1 5]"
  have a: "run4 ''g1'' = Some stored4" by (simp add: run4_eq)
  have b: "board3x3 (board stored4)" by (simp add: stored4_def sampleGame_def board3x3_def)
  have c: "makeMove run4 ''g1'' ''A'' 0 1 ''m3'' 5 5 = (Inr (?g5, mv ''m3'' ''A'' 0 1 5), run5)"
    by (simp add: run5_eq run4_eq makeMove_def stored4_def eval_simps)
  have d: "length (moves stored4) = 2" by (simp add: stored4_def sampleGame_def)
  have "moves ?g5 ! length (moves stored4) = mv ''m3'' ''A'' 0 1 5"
    using makeMove_appends_move [OF a b c] by blast
  with a b c d show ?thesis by simp
qed

subsection \<open>The current player\<close>

text \<open>
  Claim C1, as stated, fails: \<open>makeMove\<close> assigns \<open>currentPlayerId\<close> only when the game
  goes on; on a win or a draw it leaves the field alone. After the winning move of the
  sample run the game is completed and its current player is still A.
\<close>

theorem currentPlayerId_kept_after_win:
  "reachable run6 \<and> run6 ''g1'' = Some stored6
   \<and> makeMove run6 ''g1'' ''A'' 0 2 ''m5'' 7 7 = (Inr (stored7, mv ''m5'' ''A'' 0 2 7), run7)
   \<and> reachable run7 \<and> run7 ''g1'' = Some stored7
   \<and> status stored7 = Completed \<and> currentPlayerId stored7 = Some ''A''"
proof -
  have "run6 ''g1'' = Some stored6
   \<and> makeMove run6 ''g1'' ''A'' 0 2 ''m5'' 7 7 = (Inr (stored7, mv ''m5'' ''A'' 0 2 7), run7)
   \<and> run7 ''g1'' = Some stored7
   \<and> status stored7 = Completed \<and> currentPlayerId stored7 = Some ''A''"
    by (simp add: run7_eq run6_eq makeMove_def stored6_def stored7_def eval_simps)
  with reachable_run6 reachable_run7 show ?thesis by blast
qed

text \<open>
  Claim C1, amended. For every game in a reachable collection, \<open>currentPlayerId\<close> is
  \<^verbatim>\<open>null\<close> if and only if the status is waiting; so it is set whenever the game is
  active, and it stays set when the game is completed or drawn: a successful \<open>makeMove\<close>
  that ends the game leaves \<open>currentPlayerId\<close> as it was, the player who made the last
  move.
\<close>

theorem currentPlayerId_null_iff_waiting:
  assumes "reachable gs" and "gs gid = Some game"
  shows "(currentPlayerId game = None \<longleftrightarrow> status game = Waiting)
       \<and> (status game = Active \<longrightarrow> currentPlayerId game \<noteq> None)
       \<and> (\<forall>pid r c uuid tu tm g' m gs'.
            makeMove gs gid pid r c uuid tu tm = (Inr (g', m), gs') \<and> status g' \<noteq> Active
              \<longrightarrow> currentPlayerId g' = Some pid \<and> currentPlayerId g' = currentPlayerId game)"
proof -
  from reachable_game_inv [OF assms(1)] assms(2) have gi: "game_inv game" by blast
  have step: "currentPlayerId g' = Some pid \<and> currentPlayerId g' = currentPlayerId game"
    if ok: "makeMove gs gid pid r c uuid tu tm = (Inr (g', m), gs')" and na: "status g' \<noteq> Active"
    for pid r c uuid tu tm g' m gs'
  proof -
    from ok obtain game0 where
      game0: "gs gid = Some game0" and cp: "currentPlayerId game0 = Some pid"
      and st: "status g' =
           (if won (checkWinCondition (board g') pid) then Completed
            else if isDraw (board g') then Draw else Active)"
      and cur: "currentPlayerId g' =
           (if won (checkWinCondition (board g') pid) \<or> isDraw (board g') then Some pid
            else Some (id_Player (players game0 !
                   nat ((findIndex (\<lambda>p. id_Player p = pid) (players game0) + 1)
                          mod int (length (players game0))))))"
      by (rule makeMove_Inr)
    from game0 assms(2) have "game0 = game" by simp
    with cp st cur na show ?thesis by (simp split: if_splits)
  qed
  from gi have i1: "currentPlayerId game = None \<longleftrightarrow> status game = Waiting"
    by (simp add: game_inv_def)
  then have i2: "status game = Active \<longrightarrow> currentPlayerId game \<noteq> None"
    by simp
  from i1 i2 step show ?thesis by blast
qed

theorem currentPlayerId_null_iff_waiting_witness:
  "reachable run6 \<and> run6 ''g1'' = Some stored6
   \<and> (currentPlayerId stored6 = None \<longleftrightarrow> status stored6 = Waiting)
   \<and> makeMove run6 ''g1'' ''A'' 0 2 ''m5'' 7 7 = (Inr (stored7, mv ''m5'' ''A'' 0 2 7), run7)
   \<and> status stored7 \<noteq> Active
   \<and> currentPlayerId stored7 = Some ''A''"
proof -
  have a: "run6 ''g1'' = Some stored6" by (simp add: run6_eq)
  have c: "makeMove run6 ''g1'' ''A'' 0 2 ''m5'' 7 7 = (Inr (stored7, mv ''m5'' ''A'' 0 2 7), run7)"
    by (simp add: run7_eq run6_eq makeMove_def stored6_def stored7_def eval_simps)
  have d: "status stored7 \<noteq> Active" by (simp add: stored7_def sampleGame_def)
  from currentPlayerId_null_iff_waiting [OF reachable_run6 a] c d
  have "(currentPlayerId stored6 = None \<longleftrightarrow> status stored6 = Waiting)
        \<and> currentPlayerId stored7 = Some ''A''" by blast
  with reachable_run6 a c d show ?thesis by simp
qed

end
